theory Spec2Isabelle
  imports Main "HOL-Library.Word" "HOL-Library.Sublist"
begin

section \<open>Python values used by app.py\<close>

text \<open>
  A Python \<open>str\<close> is modelled by its UTF-8 encoding, one \<open>char\<close> per byte, so that the
  status messages of the source (which carry emoji) are byte-exact. An exception is
  modelled by its class name and the text \<open>str(e)\<close> that the handlers interpolate.
  Output of \<open>print\<close>, \<open>log_debug\<close>, \<open>traceback.print_exc\<close> and the advisory
  \<open>progress\<close> callback is not modelled.
\<close>

type_synonym byte = "8 word"

datatype py_exn = PyExn (exn_class: string) (exn_str: string)

definition nl :: string where
  "nl = [CHR 0x0A]"

definition digit_char :: "nat \<Rightarrow> char" where
  "digit_char n = ''0123456789'' ! n"

function str_nat :: "nat \<Rightarrow> string" where
  "str_nat n = (if n < 10 then [digit_char n] else str_nat (n div 10) @ [digit_char (n mod 10)])"
  by pat_completeness auto
termination
  by (relation "measure id") auto

declare str_nat.simps [simp del]

definition str_int :: "int \<Rightarrow> string" where
  "str_int i = (if i < 0 then ''-'' @ str_nat (nat (- i)) else str_nat (nat i))"

definition str_bool :: "bool \<Rightarrow> string" where
  "str_bool b = (if b then ''True'' else ''False'')"

text \<open>\<open>f"{v}"\<close> for a value that may be \<open>None\<close>.\<close>

definition str_opt_int :: "int option \<Rightarrow> string" where
  "str_opt_int v = (case v of None \<Rightarrow> ''None'' | Some i \<Rightarrow> str_int i)"

definition str_opt :: "string option \<Rightarrow> string" where
  "str_opt v = (case v of None \<Rightarrow> ''None'' | Some s \<Rightarrow> s)"

text \<open>\<open>f"{image.size}"\<close>: the \<open>repr\<close> of a pair of ints.\<close>

definition str_size :: "nat \<times> nat \<Rightarrow> string" where
  "str_size s = ''('' @ str_nat (fst s) @ '', '' @ str_nat (snd s) @ '')''"

text \<open>\<open>sep.join(xs)\<close>.\<close>

fun join :: "string \<Rightarrow> string list \<Rightarrow> string" where
  "join sep [] = []"
| "join sep [x] = x"
| "join sep (x # y # ys) = x @ sep @ join sep (y # ys)"

text \<open>
  \<open>s[:n]\<close> counts code points. On the UTF-8 encoding, a byte \<open>10xxxxxx\<close> continues the
  code point before it.
\<close>

definition is_continuation :: "char \<Rightarrow> bool" where
  "is_continuation c = ((of_char c :: nat) div 64 = 2)"

fun take_codepoints :: "nat \<Rightarrow> string \<Rightarrow> string" where
  "take_codepoints n [] = []"
| "take_codepoints n (c # cs) =
     (if is_continuation c then c # take_codepoints n cs
      else (case n of 0 \<Rightarrow> [] | Suc m \<Rightarrow> c # take_codepoints m cs))"

text \<open>\<open>os.path.join(a, b)\<close> of posixpath, for a relative \<open>b\<close>.\<close>

definition path_join :: "string \<Rightarrow> string \<Rightarrow> string" where
  "path_join a b = (if a = [] then b else if last a = CHR ''/'' then a @ b else a @ ''/'' @ b)"

subsection \<open>The emoji of the status messages, as UTF-8\<close>

definition rocket :: string where "rocket = [CHR 0xF0, CHR 0x9F, CHR 0x9A, CHR 0x80]"
definition cross_mark :: string where "cross_mark = [CHR 0xE2, CHR 0x9D, CHR 0x8C]"
definition check_mark :: string where "check_mark = [CHR 0xE2, CHR 0x9C, CHR 0x85]"
definition triangular_ruler :: string where "triangular_ruler = [CHR 0xF0, CHR 0x9F, CHR 0x93, CHR 0x90]"
definition memo :: string where "memo = [CHR 0xF0, CHR 0x9F, CHR 0x93, CHR 0x9D]"
definition floppy_disk :: string where "floppy_disk = [CHR 0xF0, CHR 0x9F, CHR 0x92, CHR 0xBE]"
definition magnifier :: string where "magnifier = [CHR 0xF0, CHR 0x9F, CHR 0x94, CHR 0x8D]"
definition bar_chart :: string where "bar_chart = [CHR 0xF0, CHR 0x9F, CHR 0x93, CHR 0x8A]"
definition clipboard :: string where "clipboard = [CHR 0xF0, CHR 0x9F, CHR 0x93, CHR 0x8B]"
definition page_facing_up :: string where "page_facing_up = [CHR 0xF0, CHR 0x9F, CHR 0x93, CHR 0x84]"
definition file_folder :: string where "file_folder = [CHR 0xF0, CHR 0x9F, CHR 0x93, CHR 0x81]"
definition pushpin :: string where "pushpin = [CHR 0xF0, CHR 0x9F, CHR 0x93, CHR 0x8C]"
definition broom :: string where "broom = [CHR 0xF0, CHR 0x9F, CHR 0xA7, CHR 0xB9]"
definition right_arrow :: string where "right_arrow = [CHR 0xE2, CHR 0x86, CHR 0x92]"
definition replacement_char :: string where "replacement_char = [CHR 0xEF, CHR 0xBF, CHR 0xBD]"

section \<open>Images (PIL)\<close>

text \<open>
  A decoded image is its \<open>format\<close> attribute, its size and its pixels. The constructor of
  the raster is the colour mode. A palette image carries its palette with the
  transparency already applied, as \<open>convert('RGBA')\<close> reads it. For the modes whose
  conversion rules are not needed pixel by pixel, the raster carries what
  \<open>convert('RGB')\<close> yields.
\<close>

type_synonym rgb = "byte \<times> byte \<times> byte"
type_synonym rgba = "byte \<times> byte \<times> byte \<times> byte"

datatype other_mode = Bilevel | Int32 | Float32 | CMYK | YCbCr

datatype raster =
    RGB "rgb list"
  | RGBA "rgba list"
  | L "byte list"
  | LA "(byte \<times> byte) list"
  | P "byte list" "byte \<Rightarrow> rgba"
  | Other other_mode "rgb list"

record pil_image =
  img_format :: "string option"
  img_size :: "nat \<times> nat"
  img_data :: raster

fun other_mode_name :: "other_mode \<Rightarrow> string" where
  "other_mode_name Bilevel = ''1''"
| "other_mode_name Int32 = ''I''"
| "other_mode_name Float32 = ''F''"
| "other_mode_name CMYK = ''CMYK''"
| "other_mode_name YCbCr = ''YCbCr''"

fun raster_mode :: "raster \<Rightarrow> string" where
  "raster_mode (RGB px) = ''RGB''"
| "raster_mode (RGBA px) = ''RGBA''"
| "raster_mode (L px) = ''L''"
| "raster_mode (LA px) = ''LA''"
| "raster_mode (P idx pal) = ''P''"
| "raster_mode (Other m px) = other_mode_name m"

definition mode :: "pil_image \<Rightarrow> string" where
  "mode im = raster_mode (img_data im)"

text \<open>The number of bands of an image: \<open>len(image.getbands())\<close>.\<close>

fun raster_bands :: "raster \<Rightarrow> nat" where
  "raster_bands (RGB px) = 3"
| "raster_bands (RGBA px) = 4"
| "raster_bands (L px) = 1"
| "raster_bands (LA px) = 2"
| "raster_bands (P idx pal) = 1"
| "raster_bands (Other Bilevel px) = 1"
| "raster_bands (Other Int32 px) = 1"
| "raster_bands (Other Float32 px) = 1"
| "raster_bands (Other CMYK px) = 4"
| "raster_bands (Other YCbCr px) = 3"

text \<open>\<open>image.convert('RGBA')\<close> and \<open>image.convert('RGB')\<close>; the result has no format.\<close>

fun raster_RGBA :: "raster \<Rightarrow> rgba list" where
  "raster_RGBA (RGBA px) = px"
| "raster_RGBA (RGB px) = map (\<lambda>(r, g, b). (r, g, b, 255)) px"
| "raster_RGBA (L px) = map (\<lambda>l. (l, l, l, 255)) px"
| "raster_RGBA (LA px) = map (\<lambda>(l, a). (l, l, l, a)) px"
| "raster_RGBA (P idx pal) = map pal idx"
| "raster_RGBA (Other m px) = map (\<lambda>(r, g, b). (r, g, b, 255)) px"

fun raster_RGB :: "raster \<Rightarrow> rgb list" where
  "raster_RGB (RGB px) = px"
| "raster_RGB (RGBA px) = map (\<lambda>(r, g, b, a). (r, g, b)) px"
| "raster_RGB (L px) = map (\<lambda>l. (l, l, l)) px"
| "raster_RGB (LA px) = map (\<lambda>(l, a). (l, l, l)) px"
| "raster_RGB (P idx pal) = map (\<lambda>i. case pal i of (r, g, b, a) \<Rightarrow> (r, g, b)) idx"
| "raster_RGB (Other m px) = px"

definition convert_RGBA :: "pil_image \<Rightarrow> pil_image" where
  "convert_RGBA im =
     \<lparr>img_format = None, img_size = img_size im, img_data = RGBA (raster_RGBA (img_data im))\<rparr>"

definition convert_RGB :: "pil_image \<Rightarrow> pil_image" where
  "convert_RGB im =
     \<lparr>img_format = None, img_size = img_size im, img_data = RGB (raster_RGB (img_data im))\<rparr>"

text \<open>\<open>Image.new('RGB', size, color)\<close>.\<close>

definition new_RGB :: "nat \<times> nat \<Rightarrow> rgb \<Rightarrow> pil_image" where
  "new_RGB sz color =
     \<lparr>img_format = None, img_size = sz, img_data = RGB (replicate (fst sz * snd sz) color)\<rparr>"

text \<open>\<open>image.split()[-1]\<close>: the last band.\<close>

fun last_band :: "raster \<Rightarrow> byte list" where
  "last_band (RGBA px) = map (\<lambda>(r, g, b, a). a) px"
| "last_band (RGB px) = map (\<lambda>(r, g, b). b) px"
| "last_band (L px) = px"
| "last_band (LA px) = map snd px"
| "last_band (P idx pal) = idx"
| "last_band (Other m px) = map (\<lambda>(r, g, b). b) px"

text \<open>
  Pasting through an \<open>L\<close> mask blends each band as the library's \<open>BLEND8\<close> does:
  \<open>tmp = in1 * (255 - mask) + in2 * mask + 128\<close>, then \<open>((tmp >> 8) + tmp) >> 8\<close>,
  where \<open>in1\<close> is the pixel already there and \<open>in2\<close> the pasted one.
\<close>

definition blend8 :: "byte \<Rightarrow> byte \<Rightarrow> byte \<Rightarrow> byte" where
  "blend8 msk in1 in2 =
     (let tmp = unat in1 * (255 - unat msk) + unat in2 * unat msk + 128
      in word_of_nat ((tmp div 256 + tmp) div 256))"

definition blend_pixel :: "byte \<Rightarrow> rgb \<Rightarrow> rgba \<Rightarrow> rgb" where
  "blend_pixel m d s =
     (case d of (dr, dg, db) \<Rightarrow> case s of (sr, sg, sb, sa) \<Rightarrow>
        (blend8 m dr sr, blend8 m dg sg, blend8 m db sb))"

fun paste_pixels :: "rgb list \<Rightarrow> rgba list \<Rightarrow> byte list \<Rightarrow> rgb list" where
  "paste_pixels (d # ds) (s # ss) (m # ms) = blend_pixel m d s # paste_pixels ds ss ms"
| "paste_pixels ds ss ms = ds"

text \<open>
  \<open>dest.paste(image, mask=mask)\<close> for an \<open>RGB\<close> destination and an image of the same
  size, at the origin; and \<open>dest.paste(image)\<close>, which copies the image converted to the
  destination's mode.
\<close>

definition paste_mask :: "pil_image \<Rightarrow> pil_image \<Rightarrow> byte list \<Rightarrow> pil_image" where
  "paste_mask dest im msk =
     dest\<lparr>img_data := RGB (paste_pixels (raster_RGB (img_data dest)) (raster_RGBA (img_data im)) msk)\<rparr>"

definition paste :: "pil_image \<Rightarrow> pil_image \<Rightarrow> pil_image" where
  "paste dest im = dest\<lparr>img_data := RGB (raster_RGB (img_data im))\<rparr>"

text \<open>
  Lines 241-254 of \<open>process_images\<close>, "Force convert to RGB for PNG compatibility".
\<close>

definition force_convert_rgb :: "pil_image \<Rightarrow> pil_image" where
  "force_convert_rgb image0 =
     (if mode image0 \<in> {''RGBA'', ''P'', ''LA''} then
        let image1 = (if mode image0 \<in> {''P'', ''LA''} then convert_RGBA image0 else image0);
            rgb_image = new_RGB (img_size image1) (255, 255, 255)
        in if mode image1 = ''RGBA''
           then paste_mask rgb_image image1 (last_band (img_data image1))
           else paste rgb_image image1
      else if mode image0 \<noteq> ''RGB'' then convert_RGB image0
      else image0)"

section \<open>Inputs, responses and the outside world\<close>

text \<open>
  A NumPy array is its shape and its elements in row-major order; \<open>.size\<close> is the
  number of elements. An image argument is \<open>None\<close>, an array or a PIL image.
\<close>

record ndarray =
  nd_shape :: "nat list"
  nd_elems :: "int list"

definition nd_size :: "ndarray \<Rightarrow> nat" where
  "nd_size a = length (nd_elems a)"

datatype py_image = NoImage | Array ndarray | Pil pil_image

record box =
  xmin :: "int option"
  ymin :: "int option"
  xmax :: "int option"
  ymax :: "int option"

text \<open>
  The annotation is a dict with the keys \<open>"image"\<close> and \<open>"boxes"\<close>. An entry is
  \<open>None\<close> when the key is missing; the value under \<open>"boxes"\<close> is a list or Python's
  \<open>None\<close>. The argument \<open>annotated_image\<close> itself is \<open>None\<close> or such a dict.
\<close>

record annotation =
  image_entry :: "py_image option"
  boxes_entry :: "box list option option"

record blob =
  blob_data :: "byte list"
  mime_type :: string

record part =
  part_text :: "string option"
  inline_data :: "blob option"

text \<open>A candidate is modelled by \<open>candidate.content.parts\<close>.\<close>

type_synonym candidate = "part list"

record response =
  candidates :: "candidate list option"

record request =
  req_model :: string
  req_prompt :: string
  req_image1 :: pil_image
  req_image2 :: pil_image

datatype file_content = EmptyFile | PngFile pil_image | PartialFile

text \<open>
  The state an invocation reads and changes: the environment variable, the directory of
  \<open>app.py\<close>, the files that exist, and the calls to \<open>generate_content\<close> issued so far.
\<close>

record world =
  GOOGLE_API_KEY :: "string option"
  output_dir :: string
  fs :: "string \<Rightarrow> file_content option"
  sent :: "request list"

text \<open>
  What the libraries answer during one invocation. \<open>None\<close> in an \<open>option\<close> of an
  exception means the call succeeded.
  \<^item> \<open>empty_array_bool\<close>: \<open>bool(a)\<close> of an array without elements is \<open>False\<close> with a
    deprecation warning (\<open>None\<close>) or raises, depending on the NumPy version;
  \<^item> \<open>Client\<close>: \<open>genai.Client(api_key=...)\<close>;
  \<^item> \<open>fromarray\<close>: \<open>Image.fromarray(a.astype('uint8'))\<close>;
  \<^item> \<open>NamedTemporaryFile\<close>: the name of the \<open>n\<close>-th temporary file of the invocation;
  \<^item> \<open>save_png\<close>: \<open>image.save(path, format='PNG')\<close>; a failure comes with what it leaves
    at the path;
  \<^item> \<open>generate_content\<close>: the answer of the generation service;
  \<^item> \<open>Image_open\<close>: \<open>Image.open(io.BytesIO(data))\<close>;
  \<^item> \<open>unlink_error\<close>: \<open>os.unlink(path)\<close> of a file that exists.
\<close>

record ext =
  empty_array_bool :: "py_exn option"
  Client :: "string \<Rightarrow> py_exn option"
  fromarray :: "ndarray \<Rightarrow> py_exn + pil_image"
  NamedTemporaryFile :: "nat \<Rightarrow> py_exn + string"
  save_png :: "string \<Rightarrow> pil_image \<Rightarrow> (py_exn \<times> file_content option) option"
  generate_content :: "request \<Rightarrow> py_exn + response"
  Image_open :: "byte list \<Rightarrow> py_exn + pil_image"
  unlink_error :: "string \<Rightarrow> py_exn option"

text \<open>
  The first value \<open>process_images\<close> returns is \<open>None\<close>, an image object or (as far as the
  output component accepts it) a path.
\<close>

datatype out_image = ImageObject pil_image | FilePath string

type_synonym result = "out_image option \<times> string"

section \<open>Truth values\<close>

definition array_bool :: "ext \<Rightarrow> ndarray \<Rightarrow> py_exn + bool" where
  "array_bool x a =
     (case nd_elems a of
        [] \<Rightarrow> (case empty_array_bool x of None \<Rightarrow> Inr False | Some e \<Rightarrow> Inl e)
      | [v] \<Rightarrow> Inr (v \<noteq> 0)
      | v # v' # vs \<Rightarrow>
          Inl (PyExn ''ValueError''
            ''The truth value of an array with more than one element is ambiguous. Use a.any() or a.all()''))"

definition image_bool :: "ext \<Rightarrow> py_image \<Rightarrow> py_exn + bool" where
  "image_bool x im =
     (case im of NoImage \<Rightarrow> Inr False | Array a \<Rightarrow> array_bool x a | Pil p \<Rightarrow> Inr True)"

definition annotation_bool :: "annotation option \<Rightarrow> bool" where
  "annotation_bool annotated_image =
     (case annotated_image of
        None \<Rightarrow> False
      | Some ann \<Rightarrow> image_entry ann \<noteq> None \<or> boxes_entry ann \<noteq> None)"

text \<open>Line 36: \<open>not annotated_image and not second_image\<close>.\<close>

definition no_images_provided :: "ext \<Rightarrow> annotation option \<Rightarrow> py_image \<Rightarrow> py_exn + bool" where
  "no_images_provided x annotated_image second_image =
     (if annotation_bool annotated_image then Inr False
      else (case image_bool x second_image of Inl e \<Rightarrow> Inl e | Inr b \<Rightarrow> Inr (\<not> b)))"

section \<open>The prompt (lines 149-167)\<close>

definition prompt_head :: string where
  "prompt_head =
     ''Create a seamless composite image by taking the central object from the second image and naturally integrating it into the first image within the specified rectangular area.'' @
     nl @
     nl @
     ''PLACEMENT COORDINATES (for internal use only): Place the object within bounding box coordinates:'' @
     nl @
     ''- Top-left: (''"

definition prompt_middle :: string where
  "prompt_middle =
     '')  '' @
     nl @
     ''- Bottom-right: (''"

definition prompt_tail :: string where
  "prompt_tail =
     '')'' @
     nl @
     nl @
     ''CRITICAL REQUIREMENTS:'' @
     nl @
     ''- DO NOT draw, show, or display any bounding boxes, borders, rectangles, or coordinate markers on the final image'' @
     nl @
     ''- DO NOT include any text, numbers, or coordinate labels on the image'' @
     nl @
     ''- Create a clean, natural composite without any visible editing marks or annotations'' @
     nl @
     ''- Maintain realistic lighting and shadows that match the first image'' @
     nl @
     ''- Ensure proper perspective and scaling of the inserted object  '' @
     nl @
     ''- Blend the object naturally with the background'' @
     nl @
     ''- Preserve the style and aesthetic of the original first image'' @
     nl @
     ''- Pay attention to color temperature and lighting consistency'' @
     nl @
     nl @
     ''OUTPUT FORMAT: Generate the result as a PNG image.'' @
     nl @
     nl @
     ''Create a photorealistic composite image that looks completely natural and professionally edited, with no visible signs of digital manipulation or coordinate markings.''"

definition enhanced_prompt :: "box \<Rightarrow> string" where
  "enhanced_prompt b =
     prompt_head @ str_opt_int (xmin b) @ '', '' @ str_opt_int (ymin b) @ prompt_middle @
     str_opt_int (xmax b) @ '', '' @ str_opt_int (ymax b) @ prompt_tail"

section \<open>Status strings\<close>

text \<open>
  \<open>f"{error_msg}\n\nDebug Info:\n" + "\n".join(debug_info) if debug_enabled else error_msg\<close>
\<close>

definition with_debug :: "bool \<Rightarrow> string \<Rightarrow> string list \<Rightarrow> string" where
  "with_debug debug_enabled error_msg debug_info =
     (if debug_enabled then error_msg @ nl @ nl @ ''Debug Info:'' @ nl @ join nl debug_info
      else error_msg)"

text \<open>
  The recurring three lines: set \<open>error_msg\<close>, append it to \<open>debug_info\<close> after a cross
  mark, return \<open>None\<close> and the status.
\<close>

definition error_return :: "bool \<Rightarrow> string \<Rightarrow> string list \<Rightarrow> result" where
  "error_return debug_enabled error_msg debug_info =
     (None, with_debug debug_enabled error_msg (debug_info @ [cross_mark @ '' '' @ error_msg]))"

definition composite_path :: "world \<Rightarrow> string" where
  "composite_path w = path_join (output_dir w) ''generated_composite.png''"

section \<open>The file system\<close>

definition path_exists :: "world \<Rightarrow> string \<Rightarrow> bool" where
  "path_exists w p = (fs w p \<noteq> None)"

definition quoted :: "string \<Rightarrow> string" where
  "quoted s = [CHR 0x27] @ s @ [CHR 0x27]"

text \<open>\<open>Image.open(path)\<close> of a file on disk.\<close>

definition open_file :: "world \<Rightarrow> string \<Rightarrow> py_exn + pil_image" where
  "open_file w p =
     (case fs w p of
        None \<Rightarrow> Inl (PyExn ''FileNotFoundError'' (''[Errno 2] No such file or directory: '' @ quoted p))
      | Some (PngFile im) \<Rightarrow> Inr (im\<lparr>img_format := Some ''PNG''\<rparr>)
      | Some other \<Rightarrow> Inl (PyExn ''UnidentifiedImageError'' (''cannot identify image file '' @ quoted p)))"

definition os_unlink :: "ext \<Rightarrow> string \<Rightarrow> world \<Rightarrow> py_exn + world" where
  "os_unlink x p w =
     (if fs w p = None
      then Inl (PyExn ''FileNotFoundError'' (''[Errno 2] No such file or directory: '' @ quoted p))
      else (case unlink_error x p of
              Some e \<Rightarrow> Inl e
            | None \<Rightarrow> Inr (w\<lparr>fs := (fs w)(p := None)\<rparr>)))"

section \<open>process_images\<close>

subsection \<open>Interpreting the response (lines 183-289)\<close>

text \<open>\<open>debug_info[-8:]\<close>\<close>

definition last8 :: "string list \<Rightarrow> string list" where
  "last8 debug_info = drop (length debug_info - 8) debug_info"

definition success_status :: "string \<Rightarrow> string" where
  "success_status original_format =
     check_mark @ '' Clean composite image generated successfully!'' @ nl @
     file_folder @ '' Original format: '' @ original_format @ '' '' @ right_arrow @ '' Converted to PNG'' @ nl @
     replacement_char @ '' Saved as: generated_composite.png'' @ nl @
     pushpin @ '' No bounding box markings included''"

text \<open>
  Lines 230-285, the branch of a part with inline data: decode, convert, save under the
  fixed name, read the file back, return the image. Every exception in it is caught by
  the handler of lines 282-285.
\<close>

definition decode_inline :: "ext \<Rightarrow> bool \<Rightarrow> blob \<Rightarrow> string list \<Rightarrow> world \<Rightarrow> result \<times> world" where
  "decode_inline x debug_enabled b debug_info w =
     (case Image_open x (blob_data b) of
        Inl img_error \<Rightarrow>
          (error_return debug_enabled
             (''Failed to process generated image: '' @ exn_str img_error) debug_info, w)
      | Inr image0 \<Rightarrow>
          let debug_info1 = debug_info @
                [check_mark @ '' Image created: '' @ str_size (img_size image0) @ '', mode: '' @ mode image0];
              original_format = str_opt (img_format image0);
              debug_info2 = debug_info1 @
                [clipboard @ '' Original format from Gemini: '' @ original_format];
              image1 = force_convert_rgb image0;
              debug_info3 = debug_info2 @ [check_mark @ '' Converted to mode: '' @ mode image1]
          in (case save_png x (composite_path w) image1 of
                Some (img_error, left) \<Rightarrow>
                  (error_return debug_enabled
                     (''Failed to process generated image: '' @ exn_str img_error) debug_info3,
                   w\<lparr>fs := (fs w)(composite_path w := left)\<rparr>)
              | None \<Rightarrow>
                  let w1 = w\<lparr>fs := (fs w)(composite_path w \<mapsto> PngFile image1)\<rparr>;
                      debug_info4 = debug_info3 @
                        [floppy_disk @ '' Composite image saved as PNG: '' @ composite_path w]
                  in (case open_file w1 (composite_path w) of
                        Inl img_error \<Rightarrow>
                          (error_return debug_enabled
                             (''Failed to process generated image: '' @ exn_str img_error) debug_info4,
                           w1)
                      | Inr saved_image \<Rightarrow>
                          let debug_info5 = debug_info4 @
                                [magnifier @ '' Saved file format: '' @ str_opt (img_format saved_image)]
                          in ((Some (ImageObject image1),
                               with_debug debug_enabled (success_status original_format) (last8 debug_info5)),
                              w1))))"

text \<open>
  The strings of the loop: \<open>f"Part {i}: text={has_text}, inline_data={has_inline_data}"\<close>
  after a clipboard, \<open>f"Text response: {text_preview}..."\<close> after a page, and
  \<open>f"Gemini Response (Text Only): {part.text}"\<close>.
\<close>

definition part_line :: "nat \<Rightarrow> bool \<Rightarrow> bool \<Rightarrow> string" where
  "part_line i has_text has_inline_data =
     clipboard @ '' Part '' @ str_nat i @ '': text='' @ str_bool has_text @
       '', inline_data='' @ str_bool has_inline_data"

text \<open>\<open>part.text[:200] if part.text else "None"\<close>\<close>

definition text_preview :: "string \<Rightarrow> string" where
  "text_preview t = (if t \<noteq> [] then take_codepoints 200 t else ''None'')"

definition text_line :: "string \<Rightarrow> string" where
  "text_line preview = page_facing_up @ '' Text response: '' @ preview @ ''...''"

definition text_only_status :: "string \<Rightarrow> string" where
  "text_only_status t = ''Gemini Response (Text Only): '' @ t"

text \<open>
  Lines 208-289: the loop over the parts of the first candidate, and the lines after it
  that are reached when the loop ends without returning.
\<close>

fun scan_parts :: "ext \<Rightarrow> bool \<Rightarrow> nat \<Rightarrow> part list \<Rightarrow> string list \<Rightarrow> world \<Rightarrow> result \<times> world" where
  "scan_parts x debug_enabled i [] debug_info w =
     (error_return debug_enabled ''No image was generated. Please try again.'' debug_info, w)"
| "scan_parts x debug_enabled i (p # ps) debug_info w =
     (let has_text = (part_text p \<noteq> None);
          has_inline_data = (inline_data p \<noteq> None);
          debug_info1 = debug_info @ [part_line i has_text has_inline_data]
      in (case part_text p of
            Some t \<Rightarrow>
              let debug_info2 = debug_info1 @ [text_line (text_preview t)]
              in ((None, with_debug debug_enabled (text_only_status t) debug_info2), w)
          | None \<Rightarrow>
              (case inline_data p of
                 Some b \<Rightarrow> decode_inline x debug_enabled b debug_info1 w
               | None \<Rightarrow> scan_parts x debug_enabled (Suc i) ps debug_info1 w)))"

definition interpret_response :: "ext \<Rightarrow> bool \<Rightarrow> response \<Rightarrow> string list \<Rightarrow> world \<Rightarrow> result \<times> world" where
  "interpret_response x debug_enabled resp debug_info w =
     (let debug_info1 = debug_info @ [check_mark @ '' Received response from Gemini''];
          n = (case candidates resp of None \<Rightarrow> 0 | Some cs \<Rightarrow> length cs);
          debug_info2 = debug_info1 @ [magnifier @ '' Response candidates count: '' @ str_nat n]
      in (case candidates resp of
            None \<Rightarrow> (error_return debug_enabled ''No response candidates received'' debug_info2, w)
          | Some [] \<Rightarrow> (error_return debug_enabled ''No response candidates received'' debug_info2, w)
          | Some (candidate # rest) \<Rightarrow>
              scan_parts x debug_enabled 0 candidate
                (debug_info2 @
                   [bar_chart @ '' Processing candidate with '' @ str_nat (length candidate) @ '' parts''])
                w))"

subsection \<open>The call and the clean-up (lines 172-307)\<close>

text \<open>
  The \<open>finally\<close> block: both paths are bound when it runs, so both tests of \<open>locals()\<close>
  hold. An exception of the first \<open>os.unlink\<close> skips the second; the bare \<open>except\<close>
  swallows it. The line appended to \<open>debug_info\<close> afterwards is never read.
\<close>

definition cleanup :: "ext \<Rightarrow> string \<Rightarrow> string \<Rightarrow> world \<Rightarrow> world" where
  "cleanup x first_img_path second_img_path w =
     (case os_unlink x first_img_path w of
        Inl e \<Rightarrow> w
      | Inr w1 \<Rightarrow> (case os_unlink x second_img_path w1 of Inl e \<Rightarrow> w1 | Inr w2 \<Rightarrow> w2))"

definition call_model ::
  "ext \<Rightarrow> bool \<Rightarrow> string \<Rightarrow> pil_image \<Rightarrow> pil_image \<Rightarrow> string \<Rightarrow> string \<Rightarrow> string list \<Rightarrow> world \<Rightarrow> result \<times> world" where
  "call_model x debug_enabled prompt first_img_pil second_img_pil first_img_path second_img_path debug_info w =
     (let req = \<lparr>req_model = ''gemini-2.5-flash-image-preview'', req_prompt = prompt,
                 req_image1 = first_img_pil, req_image2 = second_img_pil\<rparr>;
          w1 = w\<lparr>sent := sent w @ [req]\<rparr>;
          rw = (case generate_content x req of
                  Inl api_error \<Rightarrow>
                    (error_return debug_enabled (''Gemini API error: '' @ exn_str api_error) debug_info, w1)
                | Inr resp \<Rightarrow> interpret_response x debug_enabled resp debug_info w1)
      in (fst rw, cleanup x first_img_path second_img_path (snd rw)))"

subsection \<open>Encoding the two images (lines 117-170)\<close>

definition to_pil :: "ext \<Rightarrow> py_image \<Rightarrow> py_exn + pil_image option" where
  "to_pil x im =
     (case im of
        Array a \<Rightarrow> (case fromarray x a of Inl e \<Rightarrow> Inl e | Inr p \<Rightarrow> Inr (Some p))
      | Pil p \<Rightarrow> Inr (Some p)
      | NoImage \<Rightarrow> Inr None)"

text \<open>
  \<open>with tempfile.NamedTemporaryFile(suffix=".png", delete=False) as tmp: img.save(tmp.name, format='PNG')\<close>.
  The file exists from the moment it is created; \<open>delete=False\<close> keeps it when the block
  is left, also by an exception.
\<close>

definition save_temp :: "ext \<Rightarrow> nat \<Rightarrow> pil_image option \<Rightarrow> world \<Rightarrow> (py_exn + string \<times> pil_image) \<times> world" where
  "save_temp x n img_pil w =
     (case NamedTemporaryFile x n of
        Inl e \<Rightarrow> (Inl e, w)
      | Inr name \<Rightarrow>
          let w1 = w\<lparr>fs := (fs w)(name \<mapsto> EmptyFile)\<rparr>
          in (case img_pil of
                None \<Rightarrow>
                  (Inl (PyExn ''AttributeError''
                     (quoted ''NoneType'' @ '' object has no attribute '' @ quoted ''save'')), w1)
              | Some p \<Rightarrow>
                  (case save_png x name p of
                     Some (e, left) \<Rightarrow> (Inl e, w1\<lparr>fs := (fs w1)(name := left)\<rparr>)
                   | None \<Rightarrow> (Inr (name, p), w1\<lparr>fs := (fs w1)(name \<mapsto> PngFile p)\<rparr>))))"

definition encode_and_call ::
  "ext \<Rightarrow> annotation \<Rightarrow> py_image \<Rightarrow> bool \<Rightarrow> box \<Rightarrow> string list \<Rightarrow> world \<Rightarrow> ((py_exn \<times> string list) + result) \<times> world" where
  "encode_and_call x ann second_image debug_enabled bx debug_info w =
     (case image_entry ann of
        None \<Rightarrow> (Inl (PyExn ''KeyError'' (quoted ''image''), debug_info), w)
      | Some first_img \<Rightarrow>
     (case to_pil x first_img of
        Inl e \<Rightarrow> (Inl (e, debug_info), w)
      | Inr first_img_pil \<Rightarrow>
     (case save_temp x 0 first_img_pil w of
        (Inl e, w1) \<Rightarrow> (Inl (e, debug_info), w1)
      | (Inr (first_img_path, first_pil), w1) \<Rightarrow>
     (let debug_info1 = debug_info @ [floppy_disk @ '' First image saved: '' @ first_img_path]
      in
     (case to_pil x second_image of
        Inl e \<Rightarrow> (Inl (e, debug_info1), w1)
      | Inr second_img_pil \<Rightarrow>
     (case save_temp x 1 second_img_pil w1 of
        (Inl e, w2) \<Rightarrow> (Inl (e, debug_info1), w2)
      | (Inr (second_img_path, second_pil), w2) \<Rightarrow>
     (let debug_info2 = debug_info1 @
            [floppy_disk @ '' Second image saved: '' @ second_img_path,
             memo @ '' Enhanced prompt created''];
          rw = call_model x debug_enabled (enhanced_prompt bx) first_pil second_pil
                 first_img_path second_img_path debug_info2 w2
      in (Inr (fst rw), snd rw))))))))"

subsection \<open>Validation, credential and client (lines 46-115)\<close>

definition no_api_key :: string where
  "no_api_key = cross_mark @ '' No Google API key found in environment variables''"

definition with_box ::
  "ext \<Rightarrow> annotation \<Rightarrow> py_image \<Rightarrow> bool \<Rightarrow> box \<Rightarrow> string list \<Rightarrow> world \<Rightarrow> ((py_exn \<times> string list) + result) \<times> world" where
  "with_box x ann second_image debug_enabled bx debug_info w =
     (let debug_info1 = debug_info @
            [triangular_ruler @ '' Bounding box: ('' @ str_opt_int (xmin bx) @ '', '' @ str_opt_int (ymin bx) @
               '') to ('' @ str_opt_int (xmax bx) @ '', '' @ str_opt_int (ymax bx) @ '')'',
             memo @ '' Generated prompt for Nano Banana'']
      in if (case GOOGLE_API_KEY w of None \<Rightarrow> True | Some api_key \<Rightarrow> api_key = [])
         then (Inr (None, with_debug debug_enabled no_api_key (debug_info1 @ [no_api_key])), w)
         else
           (let debug_info2 = debug_info1 @ [check_mark @ '' Google API key found'']
            in (case Client x (the (GOOGLE_API_KEY w)) of
                  Some client_error \<Rightarrow>
                    (Inr (error_return debug_enabled
                       (''Failed to initialize Gemini client: '' @ exn_str client_error) debug_info2), w)
                | None \<Rightarrow>
                    encode_and_call x ann second_image debug_enabled bx
                      (debug_info2 @ [check_mark @ '' Gemini client initialized'']) w)))"

text \<open>Line 53: \<open>second_image is None or (isinstance(second_image, np.ndarray) and second_image.size == 0)\<close>.\<close>

definition second_image_missing :: "py_image \<Rightarrow> bool" where
  "second_image_missing second_image =
     (case second_image of NoImage \<Rightarrow> True | Array a \<Rightarrow> nd_size a = 0 | Pil p \<Rightarrow> False)"

text \<open>\<open>annotated_image.get("boxes")\<close>\<close>

definition get_boxes :: "annotation \<Rightarrow> box list option" where
  "get_boxes ann = (case boxes_entry ann of None \<Rightarrow> None | Some v \<Rightarrow> v)"

text \<open>The body of the outer \<open>try\<close>; an exception leaves it with \<open>debug_info\<close> as it then is.\<close>

definition try_body ::
  "ext \<Rightarrow> annotation option \<Rightarrow> py_image \<Rightarrow> bool \<Rightarrow> string list \<Rightarrow> world \<Rightarrow> ((py_exn \<times> string list) + result) \<times> world" where
  "try_body x annotated_image second_image debug_enabled debug_info w =
     (case annotated_image of
        None \<Rightarrow>
          (Inr (error_return debug_enabled
             ''Please provide the first image and draw an annotation box'' debug_info), w)
      | Some ann \<Rightarrow>
          if second_image_missing second_image
          then (Inr (error_return debug_enabled ''Please provide the second image'' debug_info), w)
          else (case get_boxes ann of
                  None \<Rightarrow>
                    (Inr (error_return debug_enabled
                       ''Please draw an annotation box on the first image'' debug_info), w)
                | Some [] \<Rightarrow>
                    (Inr (error_return debug_enabled
                       ''Please draw an annotation box on the first image'' debug_info), w)
                | Some (bx # others) \<Rightarrow>
                    with_box x ann second_image debug_enabled bx debug_info w))"

definition process_images ::
  "ext \<Rightarrow> annotation option \<Rightarrow> py_image \<Rightarrow> bool \<Rightarrow> world \<Rightarrow> (py_exn + result) \<times> world" where
  "process_images x annotated_image second_image debug_enabled w =
     (case no_images_provided x annotated_image second_image of
        Inl e \<Rightarrow> (Inl e, w)
      | Inr True \<Rightarrow> (Inr (None, rocket @ '' DEBUG: Function called but no images provided''), w)
      | Inr False \<Rightarrow>
          (case try_body x annotated_image second_image debug_enabled
                  [rocket @ '' Function execution started''] w of
             (Inr r, w') \<Rightarrow> (Inr r, w')
           | (Inl (e, debug_info), w') \<Rightarrow>
               (Inr (error_return debug_enabled (''Unexpected error: '' @ exn_str e) debug_info), w')))"

section \<open>download_image\<close>

definition download_image_body :: "world \<Rightarrow> py_exn + string option" where
  "download_image_body w =
     Inr (if path_exists w (composite_path w) then Some (composite_path w) else None)"

definition download_image :: "world \<Rightarrow> string option" where
  "download_image w = (case download_image_body w of Inl e \<Rightarrow> None | Inr r \<Rightarrow> r)"

section \<open>Compositing over white\<close>

text \<open>
  What the paste of lines 247-249 computes for one pixel: the pixel blended over white
  through its own alpha.
\<close>

definition alpha :: "rgba \<Rightarrow> byte" where
  "alpha s = snd (snd (snd s))"

definition over_white :: "rgba \<Rightarrow> rgb" where
  "over_white s = blend_pixel (alpha s) (255, 255, 255) s"

section \<open>Example inputs\<close>

text \<open>
  A two-pixel RGBA image whose first pixel is fully transparent, a one-pixel photo, the
  annotation of the first example of the user interface, and an outside world in which
  every library call succeeds and the service answers with one part of inline data.
\<close>

definition ex_image :: pil_image where
  "ex_image = \<lparr>img_format = Some ''PNG'', img_size = (2, 1), img_data = RGBA [(10, 20, 30, 0), (1, 2, 3, 255)]\<rparr>"
definition ex_photo :: pil_image where
  "ex_photo = \<lparr>img_format = Some ''PNG'', img_size = (1, 1), img_data = RGB [(7, 8, 9)]\<rparr>"
definition ex_box :: box where
  "ex_box = \<lparr>xmin = Some 61, ymin = Some 298, xmax = Some 228, ymax = Some 462\<rparr>"
definition ex_annotation :: annotation where
  "ex_annotation = \<lparr>image_entry = Some (Pil ex_photo), boxes_entry = Some (Some [ex_box])\<rparr>"
definition ex_world :: world where
  "ex_world = \<lparr>GOOGLE_API_KEY = Some ''key'', output_dir = ''/app'', fs = (\<lambda>p. None), sent = []\<rparr>"
definition ex_response :: response where
  "ex_response = \<lparr>candidates = Some [[\<lparr>part_text = None, inline_data = Some \<lparr>blob_data = [1, 2, 3], mime_type = ''image/png''\<rparr>\<rparr>]]\<rparr>"
definition ex_ext :: ext where
  "ex_ext = \<lparr>empty_array_bool = None, Client = (\<lambda>k. None), fromarray = (\<lambda>a. Inr ex_photo),
     NamedTemporaryFile = (\<lambda>n. Inr (if n = 0 then ''/tmp/a.png'' else ''/tmp/b.png'')),
     save_png = (\<lambda>p im. None), generate_content = (\<lambda>q. Inr ex_response),
     Image_open = (\<lambda>d. Inr ex_image), unlink_error = (\<lambda>p. None)\<rparr>"

section \<open>The outbound conversion always yields RGB\<close>

lemma paste_white_map:
  "length xs = n \<Longrightarrow>
   paste_pixels (replicate n (255, 255, 255)) (map f xs) (map ((\<lambda>(r, g, b, a). a) \<circ> f) xs) =
   map (over_white \<circ> f) xs"
  by (induction xs arbitrary: n) (auto simp: case_prod_beta alpha_def over_white_def)

lemma paste_white:
  "length px = n \<Longrightarrow>
   paste_pixels (replicate n (255, 255, 255)) px (map (\<lambda>(r, g, b, a). a) px) = map over_white px"
  using paste_white_map [of px n "\<lambda>s. s"] by (simp add: comp_def)

lemma blend8_transparent: "blend8 0 255 v = 255"
  by (simp add: blend8_def)

lemma over_white_transparent: "alpha s = 0 \<Longrightarrow> over_white s = (255, 255, 255)"
proof -
  assume a: "alpha s = 0"
  obtain r g b t where s: "s = (r, g, b, t)" by (metis prod_cases4)
  from a s have "t = 0" by (simp add: alpha_def)
  with s show ?thesis by (simp add: over_white_def blend_pixel_def blend8_transparent alpha_def)
qed

lemma mode_force_convert_rgb: "mode (force_convert_rgb im) = ''RGB''"
  by (cases "img_data im"; cases "case img_data im of Other m _ \<Rightarrow> m | _ \<Rightarrow> CMYK";
      simp add: force_convert_rgb_def mode_def Let_def convert_RGBA_def convert_RGB_def new_RGB_def
        paste_mask_def paste_def)

lemma bands_of_RGB: "raster_mode r = ''RGB'' \<Longrightarrow> raster_bands r = 3"
  by (cases r; cases "case r of Other m _ \<Rightarrow> m | _ \<Rightarrow> CMYK"; simp)

lemma alpha_modes_composited:
  "mode im \<in> {''RGBA'', ''P'', ''LA''} \<Longrightarrow>
   length (raster_RGBA (img_data im)) = fst (img_size im) * snd (img_size im) \<Longrightarrow>
   img_data (force_convert_rgb im) = RGB (map over_white (raster_RGBA (img_data im)))"
  by (cases "img_data im"; cases "case img_data im of Other m _ \<Rightarrow> m | _ \<Rightarrow> CMYK")
     (simp_all add: force_convert_rgb_def mode_def Let_def convert_RGBA_def new_RGB_def paste_mask_def
        paste_white paste_white_map)

lemma other_modes_converted:
  "mode im \<notin> {''RGBA'', ''P'', ''LA''} \<Longrightarrow> img_data (force_convert_rgb im) = RGB (raster_RGB (img_data im))"
  by (cases "img_data im"; cases "case img_data im of Other m _ \<Rightarrow> m | _ \<Rightarrow> CMYK")
     (simp_all add: force_convert_rgb_def mode_def Let_def convert_RGB_def)

text \<open>
  C4. Whatever the colour mode of the decoded image, lines 241-254 yield an image of mode
  \<open>RGB\<close>, that is of exactly three bands. For the modes \<open>RGBA\<close>, \<open>P\<close> and \<open>LA\<close> each
  pixel is the pixel of the \<open>RGBA\<close> form blended over opaque white with its alpha as the
  mask, so that a fully transparent pixel of an \<open>RGBA\<close> image becomes pure white; every
  other mode is converted directly. The pixel-level statements are for an image with one
  pixel per position.
\<close>

theorem outbound_normalization_rgb:
  "mode (force_convert_rgb im) = ''RGB'' \<and>
   raster_bands (img_data (force_convert_rgb im)) = 3 \<and>
   (length (raster_RGBA (img_data im)) = fst (img_size im) * snd (img_size im) \<longrightarrow>
      (mode im \<in> {''RGBA'', ''P'', ''LA''} \<longrightarrow>
         img_data (force_convert_rgb im) = RGB (map over_white (raster_RGBA (img_data im)))) \<and>
      (\<forall>px i. img_data im = RGBA px \<and> i < length px \<and> alpha (px ! i) = 0 \<longrightarrow>
         raster_RGB (img_data (force_convert_rgb im)) ! i = (255, 255, 255))) \<and>
   (mode im \<notin> {''RGBA'', ''P'', ''LA''} \<longrightarrow>
      img_data (force_convert_rgb im) = RGB (raster_RGB (img_data im)))"
proof -
  have m: "mode (force_convert_rgb im) = ''RGB''" by (rule mode_force_convert_rgb)
  then have b: "raster_bands (img_data (force_convert_rgb im)) = 3"
    by (simp add: mode_def bands_of_RGB)
  have t: "raster_RGB (img_data (force_convert_rgb im)) ! i = (255, 255, 255)"
    if "length (raster_RGBA (img_data im)) = fst (img_size im) * snd (img_size im)"
      and "img_data im = RGBA px" and "i < length px" and "alpha (px ! i) = 0" for px i
  proof -
    have "mode im \<in> {''RGBA'', ''P'', ''LA''}" using that(2) by (simp add: mode_def)
    then have "img_data (force_convert_rgb im) = RGB (map over_white px)"
      using alpha_modes_composited [of im] that(1,2) by simp
    then show ?thesis using that(3,4) by (simp add: over_white_transparent)
  qed
  show ?thesis
  proof (intro conjI impI allI)
    show "mode (force_convert_rgb im) = ''RGB''" by (rule m)
    show "raster_bands (img_data (force_convert_rgb im)) = 3" by (rule b)
    show "img_data (force_convert_rgb im) = RGB (map over_white (raster_RGBA (img_data im)))"
      if "length (raster_RGBA (img_data im)) = fst (img_size im) * snd (img_size im)"
        and "mode im \<in> {''RGBA'', ''P'', ''LA''}"
      using that by (rule alpha_modes_composited [rotated])
    show "raster_RGB (img_data (force_convert_rgb im)) ! i = (255, 255, 255)"
      if "length (raster_RGBA (img_data im)) = fst (img_size im) * snd (img_size im)"
        and "img_data im = RGBA px \<and> i < length px \<and> alpha (px ! i) = 0" for px i
      using that t [of px i] by simp
    show "img_data (force_convert_rgb im) = RGB (raster_RGB (img_data im))"
      if "mode im \<notin> {''RGBA'', ''P'', ''LA''}"
      using that by (rule other_modes_converted)
  qed
qed

text \<open>The theorem at the two-pixel RGBA example: its transparent pixel turns white.\<close>

theorem outbound_normalization_rgb_witness:
  "length (raster_RGBA (img_data ex_image)) = fst (img_size ex_image) * snd (img_size ex_image) \<and>
   mode ex_image \<in> {''RGBA'', ''P'', ''LA''} \<and>
   img_data ex_image = RGBA [(10, 20, 30, 0), (1, 2, 3, 255)] \<and>
   alpha ([(10, 20, 30, 0), (1, 2, 3, 255)] ! 0) = 0 \<and>
   mode (force_convert_rgb ex_image) = ''RGB'' \<and>
   raster_RGB (img_data (force_convert_rgb ex_image)) ! 0 = (255, 255, 255) \<and>
   img_data (force_convert_rgb ex_image) = RGB [(255, 255, 255), (1, 2, 3)]"
proof -
  have wf: "length (raster_RGBA (img_data ex_image)) = fst (img_size ex_image) * snd (img_size ex_image)"
    by (simp add: ex_image_def)
  have md: "mode ex_image \<in> {''RGBA'', ''P'', ''LA''}"
    by (simp add: ex_image_def mode_def)
  have dt: "img_data ex_image = RGBA [(10, 20, 30, 0), (1, 2, 3, 255)]"
    by (simp add: ex_image_def)
  have al: "alpha ([(10, 20, 30, 0), (1, 2, 3, 255)] ! 0) = 0"
    by (simp add: alpha_def)
  note claim = outbound_normalization_rgb [of ex_image]
  have m: "mode (force_convert_rgb ex_image) = ''RGB''"
    using claim by (rule conjunct1)
  have "img_data (force_convert_rgb ex_image) = RGB (map over_white (raster_RGBA (img_data ex_image)))"
    using claim wf md by blast
  then have px: "img_data (force_convert_rgb ex_image) = RGB [(255, 255, 255), (1, 2, 3)]"
    by (simp add: dt over_white_def blend_pixel_def blend8_def alpha_def)
  then have "raster_RGB (img_data (force_convert_rgb ex_image)) ! 0 = (255, 255, 255)"
    by simp
  with wf md dt al m px show ?thesis by (intro conjI)
qed

section \<open>download_image\<close>

text \<open>
  C9. \<open>download_image\<close> returns a path exactly when \<open>generated_composite.png\<close> exists
  beside \<open>app.py\<close>, and then it is that path; otherwise it returns \<open>None\<close>. Its result is
  always a value: the body raises nothing, and the handler would turn an exception into
  \<open>None\<close>.
\<close>

theorem download_image_path_iff_exists:
  "(download_image w = Some p \<longleftrightarrow> p = composite_path w \<and> path_exists w (composite_path w)) \<and>
   (download_image w = None \<longleftrightarrow> \<not> path_exists w (composite_path w)) \<and>
   composite_path w = path_join (output_dir w) ''generated_composite.png''"
proof -
  have d: "download_image w = (if path_exists w (composite_path w) then Some (composite_path w) else None)"
    by (simp add: download_image_def download_image_body_def)
  have c: "composite_path w = path_join (output_dir w) ''generated_composite.png''"
    by (simp add: composite_path_def)
  show ?thesis
    unfolding d using c by (cases "path_exists w (composite_path w)") auto
qed


section \<open>The check before the try block\<close>

text \<open>
  C10. Called with a falsy annotation (\<open>None\<close> or an empty dict) and no second image,
  \<open>process_images\<close> returns \<open>None\<close> and the fixed debug status, whatever the debug flag,
  the credential or the libraries: nothing else is validated first and nothing is
  changed. With a second image that is an image object, the absent annotation yields the
  message of line 48 instead.
\<close>

theorem no_images_short_circuit:
  "\<not> annotation_bool annotated_image \<Longrightarrow>
   process_images x annotated_image NoImage debug_enabled w =
     (Inr (None, rocket @ '' DEBUG: Function called but no images provided''), w) \<and>
   process_images x None (Pil p) debug_enabled w =
     (Inr (error_return debug_enabled ''Please provide the first image and draw an annotation box''
        [rocket @ '' Function execution started'']), w)"
  by (simp add: process_images_def no_images_provided_def image_bool_def annotation_bool_def try_body_def)

text \<open>The theorem at the empty dict and at \<open>None\<close>.\<close>

theorem no_images_short_circuit_witness:
  "\<not> annotation_bool (Some \<lparr>image_entry = None, boxes_entry = None\<rparr>) \<and>
   process_images ex_ext (Some \<lparr>image_entry = None, boxes_entry = None\<rparr>) NoImage True ex_world =
     (Inr (None, rocket @ '' DEBUG: Function called but no images provided''), ex_world) \<and>
   process_images ex_ext None NoImage False ex_world =
     (Inr (None, rocket @ '' DEBUG: Function called but no images provided''), ex_world) \<and>
   process_images ex_ext None (Pil ex_photo) False ex_world =
     (Inr (None, ''Please provide the first image and draw an annotation box''), ex_world)"
  using no_images_short_circuit [of "Some \<lparr>image_entry = None, boxes_entry = None\<rparr>" ex_ext True ex_world ex_photo]
    no_images_short_circuit [of None ex_ext False ex_world ex_photo]
  by (simp add: annotation_bool_def error_return_def with_debug_def)

text \<open>
  C2. The check of line 36 stands before the \<open>try\<close>. With no annotation and a second
  image that is an array of two or more elements, \<open>not second_image\<close> raises
  \<open>ValueError\<close>, and \<open>process_images\<close> passes it on to its caller instead of returning
  a status.
\<close>

theorem array_truth_value_escapes:
  "process_images x None (Array \<lparr>nd_shape = sh, nd_elems = v # v' # vs\<rparr>) debug_enabled w =
     (Inl (PyExn ''ValueError''
        ''The truth value of an array with more than one element is ambiguous. Use a.any() or a.all()''), w)"
  by (simp add: process_images_def no_images_provided_def annotation_bool_def image_bool_def array_bool_def)


end
